theory Spec2Isabelle
  imports Complex_Main
begin

section \<open>Python values, exceptions and effects\<close>

text \<open>
  The two drivers of \<^verbatim>\<open>griptape/drivers\<close> are adapters around external services.
  Their methods are modelled as functions that return a result together with the list of
  external calls they made, in order. A raised exception is the \<open>Inl\<close> of a sum.

  A Python \<^verbatim>\<open>str\<close> is a \<open>string\<close>; a \<open>char\<close> stands for a code point below 256.
  Python floats are never computed with by the drivers, so they are a type parameter \<open>'f\<close>.
\<close>

datatype pykey = KStr string | KInt nat

datatype exn =
    Exception string
  | ValueError string
  | NotImplementedError string
  | KeyError pykey
  | IndexError
  | TypeError
  | AttributeError
  | ApiError string

datatype 'f pyval =
    PNone
  | PBool bool
  | PInt int
  | PFloat 'f
  | PStr string
  | PList "'f pyval list"
  | PDict "string \<Rightarrow> 'f pyval option"

type_synonym 'f pydict = "string \<Rightarrow> 'f pyval option"

text \<open>
  A computation yields an exception or a value, and the trace of external calls made
  until then. \<open>callE\<close> is an external call: it is recorded whether it returns or raises.
  \<open>liftE\<close> is a local operation that may raise. \<open>bindE\<close> is sequencing: an exception
  ends the computation, the calls made so far stay in the trace.
\<close>

type_synonym ('a, 'ev) eff = "(exn + 'a) \<times> 'ev list"

definition liftE :: "exn + 'a \<Rightarrow> ('a, 'ev) eff" where
  "liftE r = (r, [])"

definition raiseE :: "exn \<Rightarrow> ('a, 'ev) eff" where
  "raiseE e = (Inl e, [])"

definition callE :: "'ev \<Rightarrow> exn + 'a \<Rightarrow> ('a, 'ev) eff" where
  "callE ev r = (r, [ev])"

definition bindE :: "('a, 'ev) eff \<Rightarrow> ('a \<Rightarrow> ('b, 'ev) eff) \<Rightarrow> ('b, 'ev) eff" where
  "bindE m f =
     (case fst m of
        Inl e \<Rightarrow> (Inl e, snd m)
      | Inr a \<Rightarrow> (fst (f a), snd m @ snd (f a)))"

subsection \<open>Subscription\<close>

text \<open>
  \<^verbatim>\<open>v[key]\<close> with a string key, and \<^verbatim>\<open>v[i]\<close> with a non-negative index. The keys of
  a dictionary are strings, so that an index is never one of them.
\<close>

fun getitem_key :: "'f pyval \<Rightarrow> string \<Rightarrow> exn + 'f pyval" where
  "getitem_key (PDict d) k = (case d k of None \<Rightarrow> Inl (KeyError (KStr k)) | Some v \<Rightarrow> Inr v)"
| "getitem_key _ k = Inl TypeError"

fun getitem_idx :: "'f pyval \<Rightarrow> nat \<Rightarrow> exn + 'f pyval" where
  "getitem_idx (PList xs) i = (if i < length xs then Inr (xs ! i) else Inl IndexError)"
| "getitem_idx (PStr s) i = (if i < length s then Inr (PStr [s ! i]) else Inl IndexError)"
| "getitem_idx (PDict d) i = Inl (KeyError (KInt i))"
| "getitem_idx _ i = Inl TypeError"

subsection \<open>String methods\<close>

text \<open>\<^verbatim>\<open>s.startswith(p)\<close> and \<^verbatim>\<open>s.endswith(suf)\<close>.\<close>

definition startswith :: "string \<Rightarrow> string \<Rightarrow> bool" where
  "startswith s p = (take (length p) s = p)"

definition endswith :: "string \<Rightarrow> string \<Rightarrow> bool" where
  "endswith s suf = (length suf \<le> length s \<and> drop (length s - length suf) s = suf)"

text \<open>
  \<^verbatim>\<open>s.replace(old, new)\<close>: every occurrence of \<open>old\<close>, found from the left and without
  overlap, becomes \<open>new\<close>. \<open>replace_from k\<close> first skips \<open>k\<close> characters, the rest of
  an occurrence just replaced. An empty \<open>old\<close> matches before every character and at the end.
\<close>

fun replace_from :: "nat \<Rightarrow> string \<Rightarrow> string \<Rightarrow> string \<Rightarrow> string" where
  "replace_from k old new [] = []"
| "replace_from (Suc k) old new (c # cs) = replace_from k old new cs"
| "replace_from 0 old new (c # cs) =
     (if startswith (c # cs) old then new @ replace_from (length old - 1) old new cs
      else c # replace_from 0 old new cs)"

definition replace :: "string \<Rightarrow> string \<Rightarrow> string \<Rightarrow> string" where
  "replace s old new =
     (if old = [] then new @ concat (map (\<lambda>c. c # new) s) else replace_from 0 old new s)"

text \<open>
  \<^verbatim>\<open>c.isspace()\<close> for a code point below 256: tab, line feed, vertical tab, form feed,
  carriage return, the four separators 0x1C to 0x1F, space, next line (0x85) and
  no-break space (0xA0). \<^verbatim>\<open>s.strip()\<close> removes these from both ends.
\<close>

definition is_space :: "char \<Rightarrow> bool" where
  "is_space c = (of_char c \<in> set [9, 10, 11, 12, 13, 28, 29, 30, 31, 32, 133, 160 :: nat])"

definition strip :: "string \<Rightarrow> string" where
  "strip s = rev (dropWhile is_space (rev (dropWhile is_space s)))"

text \<open>\<^verbatim>\<open>v.strip()\<close> on a value: only a \<^verbatim>\<open>str\<close> has the method.\<close>

fun strip_method :: "'f pyval \<Rightarrow> exn + string" where
  "strip_method (PStr s) = Inr (strip s)"
| "strip_method _ = Inl AttributeError"

text \<open>\<^verbatim>\<open>repr\<close> of a list of strings that hold no quote, backslash or control character.\<close>

fun join :: "string \<Rightarrow> string list \<Rightarrow> string" where
  "join sep [] = []"
| "join sep [x] = x"
| "join sep (x # y # ys) = x @ sep @ join sep (y # ys)"

definition repr_str :: "string \<Rightarrow> string" where
  "repr_str s = CHR 0x27 # s @ [CHR 0x27]"

definition repr_str_list :: "string list \<Rightarrow> string" where
  "repr_str_list xs = ''['' @ join '', '' (map repr_str xs) @ '']''"

text \<open>\<^verbatim>\<open>d1 | d2\<close> on dictionaries: the keys of both, the value of \<open>d2\<close> where both have one.\<close>

definition dict_or :: "'f pydict \<Rightarrow> 'f pydict \<Rightarrow> 'f pydict" where
  "dict_or d1 d2 = (\<lambda>k. case d2 k of None \<Rightarrow> d1 k | Some v \<Rightarrow> Some v)"

section \<open>HuggingFaceHubPromptDriver\<close>

text \<open>
  \<^verbatim>\<open>griptape/drivers/prompt/hugging_face_hub_prompt_driver.py\<close>.
  The prompt stack is a type parameter \<open>'ps\<close>. The processor's two hooks, the inference
  client and the inherited method \<^verbatim>\<open>prompt_stack_to_string\<close> are not part of the file:
  they are fields holding arbitrary functions that may raise. The response of the client
  is a list of values. The tokenizer is used by none of the methods below and is left out.
\<close>

datatype text_artifact = TextArtifact (artifact_value: string)

record ('ps, 'f) prompt_stack_processor =
  before_run :: "'ps \<Rightarrow> exn + 'ps"
  after_run :: "'f pyval list \<Rightarrow> exn + 'f pyval list"

record 'f inference_api =
  task :: string
  call :: "string \<Rightarrow> 'f pydict \<Rightarrow> exn + 'f pyval list"

record ('ps, 'f) hugging_face_hub_prompt_driver =
  api_token :: string
  use_gpu :: bool
  params :: "'f pydict"
  model :: string
  client :: "'f inference_api"
  pii_processor :: "('ps, 'f) prompt_stack_processor"
  stream :: bool
  prompt_stack_to_string :: "'ps \<Rightarrow> exn + string"

text \<open>The external calls of the driver: the two hooks and the request to the client.\<close>

datatype ('ps, 'f) hub_event =
    BeforeRun 'ps
  | ClientCall string "'f pydict"
  | AfterRun "'f pyval list"

text \<open>The calls of a redaction hook among the events.\<close>

fun is_redaction_hook :: "('ps, 'f) hub_event \<Rightarrow> bool" where
  "is_redaction_hook (BeforeRun ps) = True"
| "is_redaction_hook (ClientCall prompt run_params) = False"
| "is_redaction_hook (AfterRun response) = True"

definition SUPPORTED_TASKS :: "string list" where
  "SUPPORTED_TASKS = [''text2text-generation'', ''text-generation'']"

definition MAX_NEW_TOKENS :: int where
  "MAX_NEW_TOKENS = 250"

definition DEFAULT_PARAMS :: "'f pydict" where
  "DEFAULT_PARAMS =
     [''return_full_text'' \<mapsto> PBool False, ''max_new_tokens'' \<mapsto> PInt MAX_NEW_TOKENS]"

text \<open>The validator of the field \<open>stream\<close>; attrs runs it in the constructor, on the field's value.\<close>

definition validate_stream :: "bool \<Rightarrow> exn + unit" where
  "validate_stream s = (if s then Inl (ValueError ''streaming is not supported'') else Inr ())"

text \<open>
  The constructor, from the values of the fields (given or default): it runs the validator
  and yields the instance only if the validator returns.
\<close>

definition hugging_face_hub_prompt_driver_init ::
  "('ps, 'f) hugging_face_hub_prompt_driver \<Rightarrow> exn + ('ps, 'f) hugging_face_hub_prompt_driver" where
  "hugging_face_hub_prompt_driver_init given =
     (case validate_stream (stream given) of
        Inl e \<Rightarrow> Inl e
      | Inr _ \<Rightarrow> Inr given)"

definition try_run ::
  "('ps, 'f) hugging_face_hub_prompt_driver \<Rightarrow> 'ps \<Rightarrow> (text_artifact, ('ps, 'f) hub_event) eff" where
  "try_run self prompt_stack =
     bindE (callE (BeforeRun prompt_stack) (before_run (pii_processor self) prompt_stack))
       (\<lambda>processed_prompt_stack.
     bindE (liftE (prompt_stack_to_string self processed_prompt_stack))
       (\<lambda>prompt.
     if task (client self) \<in> set SUPPORTED_TASKS then
       bindE (callE (ClientCall prompt (dict_or DEFAULT_PARAMS (params self)))
                (call (client self) prompt (dict_or DEFAULT_PARAMS (params self))))
         (\<lambda>response.
       bindE (callE (AfterRun response) (after_run (pii_processor self) response))
         (\<lambda>processed_response.
       if length processed_response = 1 then
         bindE (liftE (getitem_idx (PList processed_response) 0))
           (\<lambda>choice.
         bindE (liftE (getitem_key choice ''generated_text''))
           (\<lambda>generated_text.
         bindE (liftE (strip_method generated_text))
           (\<lambda>stripped. liftE (Inr (TextArtifact stripped)))))
       else
         raiseE (Exception ''completion with more than one choice is not supported yet'')))
     else
       raiseE (Exception (''only models with the following tasks are supported: ''
                 @ repr_str_list SUPPORTED_TASKS))))"

definition try_stream ::
  "('ps, 'f) hugging_face_hub_prompt_driver \<Rightarrow> 'ps \<Rightarrow> (text_artifact list, ('ps, 'f) hub_event) eff" where
  "try_stream self prompt_stack = raiseE (NotImplementedError ''streaming is not supported'')"

section \<open>OpenAiEmbeddingDriver\<close>

text \<open>
  \<^verbatim>\<open>griptape/drivers/embedding/openai_embedding_driver.py\<close>.
  The module-level configuration of the \<^verbatim>\<open>openai\<close> package is a record that the
  constructor takes and returns. \<^verbatim>\<open>openai.Embedding.create\<close> is a parameter: a function
  from the keyword arguments to a response, that may raise. The tokenizer is used by none of
  the methods below and is left out.
\<close>

record openai_module =
  openai_api_type :: string
  openai_api_version :: "string option"
  openai_api_base :: string
  openai_api_key :: "string option"
  openai_organization :: "string option"

record openai_embedding_driver =
  model :: string
  dimensions :: int
  api_type :: string
  api_version :: "string option"
  api_base :: string
  api_key :: "string option"
  organization :: "string option"

datatype 'f embedding_event = EmbeddingCreate "'f pydict"

definition attrs_post_init :: "openai_embedding_driver \<Rightarrow> openai_module \<Rightarrow> openai_module" where
  "attrs_post_init self openai =
     openai\<lparr>openai_api_type := api_type self,
            openai_api_version := api_version self,
            openai_api_base := api_base self,
            openai_api_key := api_key self,
            openai_organization := organization self\<rparr>"

text \<open>
  The constructor, from the values of the fields (given or default): attrs stores them
  and calls \<^verbatim>\<open>__attrs_post_init__\<close>.
\<close>

definition openai_embedding_driver_init ::
  "openai_embedding_driver \<Rightarrow> openai_module \<Rightarrow> openai_embedding_driver \<times> openai_module" where
  "openai_embedding_driver_init given openai = (given, attrs_post_init given openai)"

text \<open>An \<^verbatim>\<open>Optional[str]\<close> as a value.\<close>

fun optional_str :: "string option \<Rightarrow> 'f pyval" where
  "optional_str None = PNone"
| "optional_str (Some s) = PStr s"

text \<open>The method \<^verbatim>\<open>_params\<close>.\<close>

definition embedding_params :: "openai_embedding_driver \<Rightarrow> string \<Rightarrow> 'f pydict" where
  "embedding_params self chunk =
     [''input'' \<mapsto> PStr chunk,
      ''model'' \<mapsto> PStr (model self),
      ''api_key'' \<mapsto> optional_str (api_key self),
      ''organization'' \<mapsto> optional_str (organization self),
      ''api_version'' \<mapsto> optional_str (api_version self),
      ''api_base'' \<mapsto> PStr (api_base self),
      ''api_type'' \<mapsto> PStr (api_type self)]"

definition try_embed_chunk ::
  "('f pydict \<Rightarrow> exn + 'f pyval) \<Rightarrow> openai_embedding_driver \<Rightarrow> string
     \<Rightarrow> ('f pyval, 'f embedding_event) eff" where
  "try_embed_chunk create self chunk =
     (let chunk' = (if endswith (model self) ''001'' then replace chunk [CHR 0x0A] '' '' else chunk)
      in bindE (callE (EmbeddingCreate (embedding_params self chunk'))
                  (create (embedding_params self chunk')))
           (\<lambda>response.
         bindE (liftE (getitem_key response ''data''))
           (\<lambda>data.
         bindE (liftE (getitem_idx data 0))
           (\<lambda>entry. liftE (getitem_key entry ''embedding'')))))"

section \<open>Example instances\<close>

text \<open>
  Concrete drivers on which the theorems below are instantiated. The prompt stack is a
  list of messages, flattened by concatenation; the pre-call hook masks one word; the
  client answers with the choices it is given.
\<close>

definition example_before_run :: "string list \<Rightarrow> exn + string list" where
  "example_before_run ps = Inr (map (\<lambda>m. if m = ''secret'' then ''***'' else m) ps)"

definition example_processor :: "(string list, real) prompt_stack_processor" where
  "example_processor = \<lparr>before_run = example_before_run, after_run = Inr\<rparr>"

definition example_to_string :: "string list \<Rightarrow> exn + string" where
  "example_to_string ps = Inr (concat ps)"

definition example_client :: "string \<Rightarrow> real pyval list \<Rightarrow> real inference_api" where
  "example_client t choices = \<lparr>task = t, call = (\<lambda>prompt run_params. Inr choices)\<rparr>"

definition example_choice :: "string \<Rightarrow> real pyval" where
  "example_choice t = PDict [''generated_text'' \<mapsto> PStr t]"

definition example_driver ::
  "string \<Rightarrow> real pyval list \<Rightarrow> (string list, real) hugging_face_hub_prompt_driver" where
  "example_driver t choices =
     \<lparr>api_token = ''token'', use_gpu = False,
      params = [''max_new_tokens'' \<mapsto> PInt 10, ''temperature'' \<mapsto> PFloat 0.5],
      model = ''gpt2'', client = example_client t choices,
      pii_processor = example_processor, stream = False,
      prompt_stack_to_string = example_to_string\<rparr>"

definition example_embedding_driver :: "string \<Rightarrow> openai_embedding_driver" where
  "example_embedding_driver m =
     \<lparr>model = m, dimensions = 1536, api_type = ''open_ai'', api_version = None,
      api_base = ''https://api.openai.com/v1'', api_key = Some ''key'',
      organization = None\<rparr>"

definition example_openai :: openai_module where
  "example_openai =
     \<lparr>openai_api_type = ''azure'', openai_api_version = Some ''2023-05-15'',
      openai_api_base = ''https://example.invalid'', openai_api_key = None,
      openai_organization = Some ''org''\<rparr>"

definition example_create :: "real pydict \<Rightarrow> exn + real pyval" where
  "example_create kwargs =
     Inr (PDict [''data'' \<mapsto> PList [PDict [''embedding'' \<mapsto> PList [PFloat 0.5, PFloat (- 1)],
                                            ''index'' \<mapsto> PInt 0]]])"

section \<open>Sequencing, strings and subscription\<close>

lemma bindE_callE:
  "bindE (callE ev r) f =
     (case r of Inl e \<Rightarrow> (Inl e, [ev]) | Inr a \<Rightarrow> (fst (f a), ev # snd (f a)))"
  by (simp add: bindE_def callE_def split: sum.splits)

lemma bindE_liftE:
  "bindE (liftE r) f = (case r of Inl e \<Rightarrow> (Inl e, []) | Inr a \<Rightarrow> f a)"
  by (simp add: bindE_def liftE_def split: sum.splits)

text \<open>Replacing one character by another is a map over the string.\<close>

lemma replace_from_single:
  "replace_from 0 [a] [b] s = map (\<lambda>c. if c = a then b else c) s"
  by (induction s) (simp_all add: startswith_def)

lemma replace_single:
  "replace s [a] [b] = map (\<lambda>c. if c = a then b else c) s"
  by (simp add: replace_def replace_from_single)

lemma endswith_iff: "endswith s suf \<longleftrightarrow> (\<exists>p. s = p @ suf)"
proof
  assume "endswith s suf"
  then have "s = take (length s - length suf) s @ suf"
    by (metis append_take_drop_id endswith_def)
  then show "\<exists>p. s = p @ suf" ..
next
  assume "\<exists>p. s = p @ suf"
  then show "endswith s suf" by (auto simp: endswith_def)
qed

text \<open>\<open>strip\<close> cuts a run of white space from each end, and no more.\<close>

lemma strip_decomp:
  "\<exists>l r. s = l @ strip s @ r \<and> (\<forall>c\<in>set l. is_space c) \<and> (\<forall>c\<in>set r. is_space c)"
proof -
  let ?m = "dropWhile is_space s"
  have 1: "s = takeWhile is_space s @ ?m" by simp
  have 2: "?m = strip s @ rev (takeWhile is_space (rev ?m))"
    by (metis strip_def rev_append rev_rev_ident takeWhile_dropWhile_id)
  have 3: "\<forall>c\<in>set (takeWhile is_space s). is_space c"
    by (auto dest: set_takeWhileD)
  have 4: "\<forall>c\<in>set (rev (takeWhile is_space (rev ?m))). is_space c"
    by (auto dest: set_takeWhileD)
  from 1 2 have "s = takeWhile is_space s @ strip s @ rev (takeWhile is_space (rev ?m))"
    by metis
  with 3 4 show ?thesis by blast
qed

lemma strip_ends:
  assumes "strip s \<noteq> []"
  shows "\<not> is_space (hd (strip s)) \<and> \<not> is_space (last (strip s))"
proof -
  let ?m = "dropWhile is_space s"
  let ?d = "dropWhile is_space (rev ?m)"
  from assms have d: "?d \<noteq> []" by (simp add: strip_def)
  then have "\<not> is_space (hd ?d)" by (rule hd_dropWhile)
  with d have l: "\<not> is_space (last (strip s))" by (simp add: strip_def last_rev)
  have "?m = strip s @ rev (takeWhile is_space (rev ?m))"
    by (metis strip_def rev_append rev_rev_ident takeWhile_dropWhile_id)
  with assms have "hd ?m = hd (strip s)" and "?m \<noteq> []"
    by (metis hd_append2, metis append_is_Nil_conv)
  then have "\<not> is_space (hd (strip s))" by (metis hd_dropWhile)
  with l show ?thesis by simp
qed


lemma fst_liftE: "fst (liftE r) = r"
  by (simp add: liftE_def)

lemma snd_liftE: "snd (liftE r) = []"
  by (simp add: liftE_def)

lemma getitem_key_Inr:
  "getitem_key x k = Inr v \<longleftrightarrow> (\<exists>d. x = PDict d \<and> d k = Some v)"
  by (cases x) (auto split: option.splits)

lemma strip_method_Inr:
  "strip_method g = Inr s \<longleftrightarrow> (\<exists>t. g = PStr t \<and> s = strip t)"
  by (cases g) auto

lemma length_one: "length xs = Suc 0 \<longleftrightarrow> (\<exists>x. xs = [x])"
  by (cases xs) auto

lemma try_run_unsupported:
  assumes "task (client self) \<notin> set SUPPORTED_TASKS"
  shows "try_run self prompt_stack =
    (case before_run (pii_processor self) prompt_stack of
       Inl e \<Rightarrow> (Inl e, [BeforeRun prompt_stack])
     | Inr processed_prompt_stack \<Rightarrow>
        (case prompt_stack_to_string self processed_prompt_stack of
           Inl e \<Rightarrow> (Inl e, [BeforeRun prompt_stack])
         | Inr prompt \<Rightarrow>
            (Inl (Exception (''only models with the following tasks are supported: ''
                    @ repr_str_list SUPPORTED_TASKS)), [BeforeRun prompt_stack])))"
  using assms
  by (simp add: try_run_def bindE_callE bindE_liftE raiseE_def split: sum.splits)

lemma try_run_supported:
  assumes "task (client self) \<in> set SUPPORTED_TASKS"
    and "before_run (pii_processor self) prompt_stack = Inr processed_prompt_stack"
    and "prompt_stack_to_string self processed_prompt_stack = Inr prompt"
    and "call (client self) prompt (dict_or DEFAULT_PARAMS (params self)) = Inr response"
    and "after_run (pii_processor self) response = Inr processed_response"
  shows "try_run self prompt_stack =
    ((case processed_response of
        [choice] \<Rightarrow>
          (case getitem_key choice ''generated_text'' of
             Inl e \<Rightarrow> Inl e
           | Inr generated_text \<Rightarrow>
              (case strip_method generated_text of
                 Inl e \<Rightarrow> Inl e
               | Inr stripped \<Rightarrow> Inr (TextArtifact stripped)))
      | _ \<Rightarrow> Inl (Exception ''completion with more than one choice is not supported yet'')),
     [BeforeRun prompt_stack,
      ClientCall prompt (dict_or DEFAULT_PARAMS (params self)),
      AfterRun response])"
  using assms
  by (auto simp add: try_run_def bindE_callE bindE_liftE raiseE_def fst_liftE snd_liftE length_one
      split: sum.splits list.splits)

lemma try_run_prefix:
  assumes "task (client self) \<in> set SUPPORTED_TASKS"
    and "before_run (pii_processor self) prompt_stack = Inr processed_prompt_stack"
    and "prompt_stack_to_string self processed_prompt_stack = Inr prompt"
  shows "\<exists>rest. snd (try_run self prompt_stack) =
     BeforeRun prompt_stack # ClientCall prompt (dict_or DEFAULT_PARAMS (params self)) # rest"
  using assms
  by (simp add: try_run_def bindE_callE bindE_liftE split: sum.splits)

lemma try_run_returns:
  assumes "fst (try_run self prompt_stack) = Inr a"
  shows "\<exists>processed_prompt_stack prompt response d t.
     task (client self) \<in> set SUPPORTED_TASKS
     \<and> before_run (pii_processor self) prompt_stack = Inr processed_prompt_stack
     \<and> prompt_stack_to_string self processed_prompt_stack = Inr prompt
     \<and> call (client self) prompt (dict_or DEFAULT_PARAMS (params self)) = Inr response
     \<and> after_run (pii_processor self) response = Inr [PDict d]
     \<and> d ''generated_text'' = Some (PStr t)
     \<and> a = TextArtifact (strip t)"
  using assms
  by (auto simp add: try_run_def bindE_callE bindE_liftE raiseE_def fst_liftE snd_liftE length_one
      getitem_key_Inr strip_method_Inr split: sum.splits if_splits)

section \<open>The inference driver\<close>

text \<open>
  C1 (amended). If the task of the client is outside \<open>SUPPORTED_TASKS\<close>, \<open>try_run\<close> raises
  an error, and its only external call is \<open>before_run\<close> on the prompt stack, made before the
  task is looked at: there is no request to the client and no call of \<open>after_run\<close>. When the
  hook and the flattening return, the error is the one naming the supported tasks.
\<close>

theorem try_run_unsupported_task:
  assumes "task (client self) \<notin> set SUPPORTED_TASKS"
  shows "isl (fst (try_run self prompt_stack))
    \<and> snd (try_run self prompt_stack) = [BeforeRun prompt_stack]
    \<and> (\<forall>processed_prompt_stack prompt.
          before_run (pii_processor self) prompt_stack = Inr processed_prompt_stack
          \<and> prompt_stack_to_string self processed_prompt_stack = Inr prompt
          \<longrightarrow> fst (try_run self prompt_stack) =
                Inl (Exception (''only models with the following tasks are supported: ''
                       @ repr_str_list SUPPORTED_TASKS)))"
  by (simp add: try_run_unsupported [OF assms] split: sum.splits)

theorem try_run_unsupported_task_witness:
  "task (client (example_driver ''summarization'' [])) \<notin> set SUPPORTED_TASKS
   \<and> isl (fst (try_run (example_driver ''summarization'' []) [''hello'']))
   \<and> snd (try_run (example_driver ''summarization'' []) [''hello'']) = [BeforeRun [''hello'']]"
  using try_run_unsupported_task [of "example_driver ''summarization'' []" "[''hello'']"]
  by (simp add: example_driver_def example_client_def SUPPORTED_TASKS_def)

text \<open>
  C1 as stated fails: with the task \<open>summarization\<close> the trace of \<open>try_run\<close> holds a call
  of a redaction hook.
\<close>

theorem try_run_unsupported_task_calls_hook:
  "\<not> (task (client (example_driver ''summarization'' [])) \<notin> set SUPPORTED_TASKS
      \<longrightarrow> isl (fst (try_run (example_driver ''summarization'' []) [''hello'']))
          \<and> filter is_redaction_hook
               (snd (try_run (example_driver ''summarization'' []) [''hello''])) = [])"
  by (simp add: try_run_def bindE_callE bindE_liftE raiseE_def example_driver_def
      example_client_def example_processor_def example_before_run_def example_to_string_def
      SUPPORTED_TASKS_def)

text \<open>
  C3. With a supported task, when the processed response is one choice holding a generated
  text, \<open>try_run\<close> returns the artifact of that text without the white space at its two ends;
  when the processed response has more than one choice, \<open>try_run\<close> raises.
\<close>

theorem try_run_choices:
  assumes "task (client self) \<in> set SUPPORTED_TASKS"
    and "before_run (pii_processor self) prompt_stack = Inr processed_prompt_stack"
    and "prompt_stack_to_string self processed_prompt_stack = Inr prompt"
    and "call (client self) prompt (dict_or DEFAULT_PARAMS (params self)) = Inr response"
    and "after_run (pii_processor self) response = Inr processed_response"
  shows "(\<forall>d t. processed_response = [PDict d] \<and> d ''generated_text'' = Some (PStr t) \<longrightarrow>
            (\<exists>l r. fst (try_run self prompt_stack) = Inr (TextArtifact (strip t))
               \<and> t = l @ strip t @ r
               \<and> (\<forall>c\<in>set l. is_space c) \<and> (\<forall>c\<in>set r. is_space c)
               \<and> (strip t = [] \<or> \<not> is_space (hd (strip t)) \<and> \<not> is_space (last (strip t)))))
    \<and> (1 < length processed_response \<longrightarrow>
          fst (try_run self prompt_stack) =
            Inl (Exception ''completion with more than one choice is not supported yet''))"
proof (intro conjI allI impI)
  fix d t
  assume "processed_response = [PDict d] \<and> d ''generated_text'' = Some (PStr t)"
  then have "fst (try_run self prompt_stack) = Inr (TextArtifact (strip t))"
    by (simp add: try_run_supported [OF assms])
  moreover obtain l r where "t = l @ strip t @ r"
    and "\<forall>c\<in>set l. is_space c" and "\<forall>c\<in>set r. is_space c"
    using strip_decomp by blast
  moreover have "strip t = [] \<or> \<not> is_space (hd (strip t)) \<and> \<not> is_space (last (strip t))"
    using strip_ends by blast
  ultimately show "\<exists>l r. fst (try_run self prompt_stack) = Inr (TextArtifact (strip t))
       \<and> t = l @ strip t @ r
       \<and> (\<forall>c\<in>set l. is_space c) \<and> (\<forall>c\<in>set r. is_space c)
       \<and> (strip t = [] \<or> \<not> is_space (hd (strip t)) \<and> \<not> is_space (last (strip t)))"
    by blast
next
  assume "1 < length processed_response"
  then show "fst (try_run self prompt_stack) =
      Inl (Exception ''completion with more than one choice is not supported yet'')"
    by (auto simp add: try_run_supported [OF assms] split: list.splits)
qed

theorem try_run_choices_witness:
  "task (client (example_driver ''text-generation'' [example_choice ''  hi there ''])) \<in> set SUPPORTED_TASKS
   \<and> fst (try_run (example_driver ''text-generation'' [example_choice ''  hi there ''])
             [''my '', ''secret'']) = Inr (TextArtifact ''hi there'')
   \<and> 1 < length [example_choice ''a'', example_choice ''b'']
   \<and> fst (try_run (example_driver ''text-generation'' [example_choice ''a'', example_choice ''b''])
             [''my '', ''secret''])
       = Inl (Exception ''completion with more than one choice is not supported yet'')"
proof -
  let ?one = "example_driver ''text-generation'' [example_choice ''  hi there '']"
  let ?two = "example_driver ''text-generation'' [example_choice ''a'', example_choice ''b'']"
  have 1: "task (client ?one) \<in> set SUPPORTED_TASKS" "task (client ?two) \<in> set SUPPORTED_TASKS"
    by (simp_all add: example_driver_def example_client_def SUPPORTED_TASKS_def)
  have 2: "before_run (pii_processor ?one) [''my '', ''secret''] = Inr [''my '', ''***'']"
    "before_run (pii_processor ?two) [''my '', ''secret''] = Inr [''my '', ''***'']"
    by (simp_all add: example_driver_def example_processor_def example_before_run_def)
  have 3: "prompt_stack_to_string ?one [''my '', ''***''] = Inr ''my ***''"
    "prompt_stack_to_string ?two [''my '', ''***''] = Inr ''my ***''"
    by (simp_all add: example_driver_def example_to_string_def)
  have 4: "call (client ?one) ''my ***'' (dict_or DEFAULT_PARAMS (params ?one))
      = Inr [example_choice ''  hi there '']"
    "call (client ?two) ''my ***'' (dict_or DEFAULT_PARAMS (params ?two))
      = Inr [example_choice ''a'', example_choice ''b'']"
    by (simp_all add: example_driver_def example_client_def)
  have 5: "after_run (pii_processor ?one) [example_choice ''  hi there '']
      = Inr [PDict [''generated_text'' \<mapsto> PStr ''  hi there '']]"
    "after_run (pii_processor ?two) [example_choice ''a'', example_choice ''b'']
      = Inr [example_choice ''a'', example_choice ''b'']"
    by (simp_all add: example_driver_def example_processor_def example_choice_def)
  have 6: "strip ''  hi there '' = ''hi there''"
    by (simp add: strip_def is_space_def)
  from try_run_choices [OF 1(1) 2(1) 3(1) 4(1) 5(1)] 6
  have a: "fst (try_run ?one [''my '', ''secret'']) = Inr (TextArtifact ''hi there'')"
    by auto
  from try_run_choices [OF 1(2) 2(2) 3(2) 4(2) 5(2)]
  have b: "fst (try_run ?two [''my '', ''secret''])
      = Inl (Exception ''completion with more than one choice is not supported yet'')"
    by simp
  from 1 a b show ?thesis by simp
qed

text \<open>
  C4. The constructor, given \<open>stream = True\<close>, raises the validator's error: it yields
  no instance.
\<close>

theorem init_stream_fails:
  assumes "stream given"
  shows "hugging_face_hub_prompt_driver_init given = Inl (ValueError ''streaming is not supported'')
    \<and> (\<nexists>self. hugging_face_hub_prompt_driver_init given = Inr self)"
  using assms by (simp add: hugging_face_hub_prompt_driver_init_def validate_stream_def)

theorem init_stream_fails_witness:
  "stream ((example_driver ''text-generation'' [])\<lparr>stream := True\<rparr>)
   \<and> hugging_face_hub_prompt_driver_init ((example_driver ''text-generation'' [])\<lparr>stream := True\<rparr>)
       = Inl (ValueError ''streaming is not supported'')"
  using init_stream_fails [of "(example_driver ''text-generation'' [])\<lparr>stream := True\<rparr>"]
  by simp

text \<open>
  C5. \<open>try_stream\<close> raises \<open>NotImplementedError\<close> on every driver and every prompt stack,
  and makes no external call.
\<close>

theorem try_stream_not_implemented:
  "try_stream self prompt_stack = (Inl (NotImplementedError ''streaming is not supported''), [])"
  by (simp add: try_stream_def raiseE_def)

theorem try_stream_not_implemented_witness:
  "fst (try_stream (example_driver ''text-generation'' []) [''hello''])
     = Inl (NotImplementedError ''streaming is not supported'')
   \<and> snd (try_stream (example_driver ''text-generation'' []) [''hello'']) = []"
  using try_stream_not_implemented [of "example_driver ''text-generation'' []" "[''hello'']"]
  by simp

text \<open>
  C6. With a supported task, \<open>try_run\<close> calls \<open>before_run\<close> on the prompt stack, flattens
  what the hook returned, sends that prompt to the client, and calls \<open>after_run\<close> on the
  client's response, in this order and with no other external call. What it returns is one
  artifact, made from the single choice of the processed response.
\<close>

theorem try_run_pipeline:
  assumes "task (client self) \<in> set SUPPORTED_TASKS"
    and "before_run (pii_processor self) prompt_stack = Inr processed_prompt_stack"
    and "prompt_stack_to_string self processed_prompt_stack = Inr prompt"
    and "call (client self) prompt (dict_or DEFAULT_PARAMS (params self)) = Inr response"
    and "after_run (pii_processor self) response = Inr processed_response"
  shows "snd (try_run self prompt_stack) =
       [BeforeRun prompt_stack,
        ClientCall prompt (dict_or DEFAULT_PARAMS (params self)),
        AfterRun response]
    \<and> (\<forall>d t. processed_response = [PDict d] \<and> d ''generated_text'' = Some (PStr t) \<longrightarrow>
          fst (try_run self prompt_stack) = Inr (TextArtifact (strip t)))
    \<and> (\<forall>a. fst (try_run self prompt_stack) = Inr a \<longrightarrow>
          (\<exists>d t. processed_response = [PDict d] \<and> d ''generated_text'' = Some (PStr t)
             \<and> a = TextArtifact (strip t)))"
proof (intro conjI allI impI)
  show "snd (try_run self prompt_stack) =
       [BeforeRun prompt_stack,
        ClientCall prompt (dict_or DEFAULT_PARAMS (params self)),
        AfterRun response]"
    by (simp add: try_run_supported [OF assms])
next
  fix d t
  assume "processed_response = [PDict d] \<and> d ''generated_text'' = Some (PStr t)"
  then show "fst (try_run self prompt_stack) = Inr (TextArtifact (strip t))"
    by (simp add: try_run_supported [OF assms])
next
  fix a
  assume "fst (try_run self prompt_stack) = Inr a"
  from try_run_returns [OF this] assms
  show "\<exists>d t. processed_response = [PDict d] \<and> d ''generated_text'' = Some (PStr t)
      \<and> a = TextArtifact (strip t)"
    by auto
qed


theorem try_run_pipeline_witness:
  "task (client (example_driver ''text2text-generation'' [example_choice ''ok  ''])) \<in> set SUPPORTED_TASKS
   \<and> snd (try_run (example_driver ''text2text-generation'' [example_choice ''ok  ''])
             [''my '', ''secret''])
       = [BeforeRun [''my '', ''secret''],
          ClientCall ''my ***''
            (dict_or DEFAULT_PARAMS
               (params (example_driver ''text2text-generation'' [example_choice ''ok  '']))),
          AfterRun [example_choice ''ok  '']]
   \<and> fst (try_run (example_driver ''text2text-generation'' [example_choice ''ok  ''])
             [''my '', ''secret'']) = Inr (TextArtifact ''ok'')"
proof -
  let ?self = "example_driver ''text2text-generation'' [example_choice ''ok  '']"
  have 1: "task (client ?self) \<in> set SUPPORTED_TASKS"
    by (simp add: example_driver_def example_client_def SUPPORTED_TASKS_def)
  have 2: "before_run (pii_processor ?self) [''my '', ''secret''] = Inr [''my '', ''***'']"
    by (simp add: example_driver_def example_processor_def example_before_run_def)
  have 3: "prompt_stack_to_string ?self [''my '', ''***''] = Inr ''my ***''"
    by (simp add: example_driver_def example_to_string_def)
  have 4: "call (client ?self) ''my ***'' (dict_or DEFAULT_PARAMS (params ?self))
      = Inr [example_choice ''ok  '']"
    by (simp add: example_driver_def example_client_def)
  have 5: "after_run (pii_processor ?self) [example_choice ''ok  '']
      = Inr [PDict [''generated_text'' \<mapsto> PStr ''ok  '']]"
    by (simp add: example_driver_def example_processor_def example_choice_def)
  have 6: "strip ''ok  '' = ''ok''"
    by (simp add: strip_def is_space_def)
  note th = try_run_pipeline [OF 1 2 3 4 5]
  have a: "snd (try_run ?self [''my '', ''secret''])
       = [BeforeRun [''my '', ''secret''],
          ClientCall ''my ***'' (dict_or DEFAULT_PARAMS (params ?self)),
          AfterRun [example_choice ''ok  '']]"
    by (rule th [THEN conjunct1])
  have "fst (try_run ?self [''my '', ''secret'']) = Inr (TextArtifact (strip ''ok  ''))"
    by (rule th [THEN conjunct2, THEN conjunct1, rule_format,
          of "[''generated_text'' \<mapsto> PStr ''ok  '']" "''ok  ''"]) simp
  with 6 have b: "fst (try_run ?self [''my '', ''secret'']) = Inr (TextArtifact ''ok'')"
    by simp
  from 1 a b show ?thesis by blast
qed

text \<open>
  C9. With a supported task, an empty processed response makes \<open>try_run\<close> raise the error
  of the choice count; any number of choices other than one makes it raise; and it
  returns an artifact only if the processed response has exactly one choice.
\<close>

theorem try_run_choice_count:
  assumes "task (client self) \<in> set SUPPORTED_TASKS"
    and "before_run (pii_processor self) prompt_stack = Inr processed_prompt_stack"
    and "prompt_stack_to_string self processed_prompt_stack = Inr prompt"
    and "call (client self) prompt (dict_or DEFAULT_PARAMS (params self)) = Inr response"
    and "after_run (pii_processor self) response = Inr processed_response"
  shows "(processed_response = [] \<longrightarrow>
            fst (try_run self prompt_stack) =
              Inl (Exception ''completion with more than one choice is not supported yet''))
    \<and> (length processed_response \<noteq> 1 \<longrightarrow> isl (fst (try_run self prompt_stack)))
    \<and> (\<forall>a. fst (try_run self prompt_stack) = Inr a \<longrightarrow> length processed_response = 1)"
  by (auto simp add: try_run_supported [OF assms] split: list.splits)

theorem try_run_choice_count_witness:
  "task (client (example_driver ''text-generation'' [])) \<in> set SUPPORTED_TASKS
   \<and> fst (try_run (example_driver ''text-generation'' []) [''hello''])
       = Inl (Exception ''completion with more than one choice is not supported yet'')"
proof -
  let ?self = "example_driver ''text-generation'' []"
  have 1: "task (client ?self) \<in> set SUPPORTED_TASKS"
    by (simp add: example_driver_def example_client_def SUPPORTED_TASKS_def)
  have 2: "before_run (pii_processor ?self) [''hello''] = Inr [''hello'']"
    by (simp add: example_driver_def example_processor_def example_before_run_def)
  have 3: "prompt_stack_to_string ?self [''hello''] = Inr ''hello''"
    by (simp add: example_driver_def example_to_string_def)
  have 4: "call (client ?self) ''hello'' (dict_or DEFAULT_PARAMS (params ?self)) = Inr []"
    by (simp add: example_driver_def example_client_def)
  have 5: "after_run (pii_processor ?self) [] = Inr []"
    by (simp add: example_driver_def example_processor_def)
  from try_run_choice_count [OF 1 2 3 4 5]
  have "fst (try_run ?self [''hello''])
       = Inl (Exception ''completion with more than one choice is not supported yet'')"
    by simp
  with 1 show ?thesis by simp
qed

text \<open>
  C10. The parameters sent to the client are the user's \<open>params\<close> over the defaults
  \<open>return_full_text = False\<close> and \<open>max_new_tokens = 250\<close>: a key the user gives has the
  user's value, any other key has the default's value, if any.
\<close>

theorem try_run_params:
  assumes "task (client self) \<in> set SUPPORTED_TASKS"
    and "before_run (pii_processor self) prompt_stack = Inr processed_prompt_stack"
    and "prompt_stack_to_string self processed_prompt_stack = Inr prompt"
  shows "\<exists>run_params rest.
      snd (try_run self prompt_stack) =
        BeforeRun prompt_stack # ClientCall prompt run_params # rest
      \<and> (\<forall>k. run_params k =
            (case params self k of
               Some v \<Rightarrow> Some v
             | None \<Rightarrow>
                 (if k = ''return_full_text'' then Some (PBool False)
                  else if k = ''max_new_tokens'' then Some (PInt 250)
                  else None)))"
proof -
  from try_run_prefix [OF assms] obtain rest where
    "snd (try_run self prompt_stack) =
       BeforeRun prompt_stack # ClientCall prompt (dict_or DEFAULT_PARAMS (params self)) # rest"
    by blast
  moreover have "\<forall>k. dict_or DEFAULT_PARAMS (params self) k =
            (case params self k of
               Some v \<Rightarrow> Some v
             | None \<Rightarrow>
                 (if k = ''return_full_text'' then Some (PBool False)
                  else if k = ''max_new_tokens'' then Some (PInt 250)
                  else None))"
    by (simp add: dict_or_def DEFAULT_PARAMS_def MAX_NEW_TOKENS_def split: option.splits)
  ultimately show ?thesis by blast
qed

theorem try_run_params_witness:
  "task (client (example_driver ''text-generation'' [])) \<in> set SUPPORTED_TASKS
   \<and> (\<exists>run_params rest.
        snd (try_run (example_driver ''text-generation'' []) [''hello'']) =
          BeforeRun [''hello''] # ClientCall ''hello'' run_params # rest
        \<and> run_params ''return_full_text'' = Some (PBool False)
        \<and> run_params ''max_new_tokens'' = Some (PInt 10)
        \<and> run_params ''temperature'' = Some (PFloat 0.5)
        \<and> run_params ''top_k'' = None)"
proof -
  let ?self = "example_driver ''text-generation'' []"
  have 1: "task (client ?self) \<in> set SUPPORTED_TASKS"
    by (simp add: example_driver_def example_client_def SUPPORTED_TASKS_def)
  have 2: "before_run (pii_processor ?self) [''hello''] = Inr [''hello'']"
    by (simp add: example_driver_def example_processor_def example_before_run_def)
  have 3: "prompt_stack_to_string ?self [''hello''] = Inr ''hello''"
    by (simp add: example_driver_def example_to_string_def)
  from try_run_params [OF 1 2 3] obtain run_params rest where
    t: "snd (try_run ?self [''hello'']) = BeforeRun [''hello''] # ClientCall ''hello'' run_params # rest"
    and p: "\<forall>k. run_params k =
            (case params ?self k of
               Some v \<Rightarrow> Some v
             | None \<Rightarrow>
                 (if k = ''return_full_text'' then Some (PBool False)
                  else if k = ''max_new_tokens'' then Some (PInt 250)
                  else None))"
    by blast
  from p [rule_format, of "''return_full_text''"]
  have a: "run_params ''return_full_text'' = Some (PBool False)"
    by (simp add: example_driver_def)
  from p [rule_format, of "''max_new_tokens''"]
  have b: "run_params ''max_new_tokens'' = Some (PInt 10)"
    by (simp add: example_driver_def)
  from p [rule_format, of "''temperature''"]
  have c: "run_params ''temperature'' = Some (PFloat 0.5)"
    by (simp add: example_driver_def)
  from p [rule_format, of "''top_k''"]
  have d: "run_params ''top_k'' = None"
    by (simp add: example_driver_def)
  from 1 t a b c d show ?thesis by blast
qed


section \<open>The embedding driver\<close>

lemma try_embed_chunk_trace:
  "snd (try_embed_chunk create self chunk) =
     [EmbeddingCreate (embedding_params self
        (if endswith (model self) ''001'' then replace chunk [CHR 0x0A] '' '' else chunk))]"
  by (simp add: try_embed_chunk_def Let_def bindE_callE bindE_liftE snd_liftE split: sum.splits)

lemma try_embed_chunk_result:
  "fst (try_embed_chunk create self chunk) =
     (case create (embedding_params self
        (if endswith (model self) ''001'' then replace chunk [CHR 0x0A] '' '' else chunk)) of
        Inl e \<Rightarrow> Inl e
      | Inr response \<Rightarrow>
          (case getitem_key response ''data'' of
             Inl e \<Rightarrow> Inl e
           | Inr data \<Rightarrow>
               (case getitem_idx data 0 of
                  Inl e \<Rightarrow> Inl e
                | Inr entry \<Rightarrow> getitem_key entry ''embedding'')))"
  by (simp add: try_embed_chunk_def Let_def bindE_callE bindE_liftE fst_liftE split: sum.splits)

lemma embedding_params_input: "embedding_params self chunk ''input'' = Some (PStr chunk)"
  by (simp add: embedding_params_def)

text \<open>
  C2. When the model name ends with \<open>001\<close>, the input of the request is the chunk with
  every line feed turned into a space; otherwise the input is the chunk itself.
\<close>

theorem try_embed_chunk_newlines:
  "(endswith (model self) ''001'' \<longrightarrow>
      (\<exists>kwargs. snd (try_embed_chunk create self chunk) = [EmbeddingCreate kwargs]
         \<and> kwargs ''input'' = Some (PStr (map (\<lambda>c. if c = CHR 0x0A then CHR 0x20 else c) chunk))))
   \<and> (\<not> endswith (model self) ''001'' \<longrightarrow>
      (\<exists>kwargs. snd (try_embed_chunk create self chunk) = [EmbeddingCreate kwargs]
         \<and> kwargs ''input'' = Some (PStr chunk)))"
  by (simp add: try_embed_chunk_trace embedding_params_input replace_single)

theorem try_embed_chunk_newlines_witness:
  "endswith (model (example_embedding_driver ''text-search-ada-doc-001'')) ''001''
   \<and> (\<exists>kwargs. snd (try_embed_chunk example_create
                      (example_embedding_driver ''text-search-ada-doc-001'')
                      [CHR ''a'', CHR 0x0A, CHR 0x0A, CHR ''b'', CHR 0x0A])
                  = [EmbeddingCreate kwargs]
         \<and> kwargs ''input'' = Some (PStr ''a  b ''))
   \<and> \<not> endswith (model (example_embedding_driver ''text-embedding-ada-002'')) ''001''
   \<and> (\<exists>kwargs. snd (try_embed_chunk example_create
                      (example_embedding_driver ''text-embedding-ada-002'')
                      [CHR ''a'', CHR 0x0A, CHR 0x0A, CHR ''b'', CHR 0x0A])
                  = [EmbeddingCreate kwargs]
         \<and> kwargs ''input'' = Some (PStr [CHR ''a'', CHR 0x0A, CHR 0x0A, CHR ''b'', CHR 0x0A]))"
proof -
  let ?chunk = "[CHR ''a'', CHR 0x0A, CHR 0x0A, CHR ''b'', CHR 0x0A]"
  have 1: "endswith (model (example_embedding_driver ''text-search-ada-doc-001'')) ''001''"
    by (simp add: example_embedding_driver_def endswith_def)
  have 2: "\<not> endswith (model (example_embedding_driver ''text-embedding-ada-002'')) ''001''"
    by (simp add: example_embedding_driver_def endswith_def)
  have 3: "map (\<lambda>c. if c = CHR 0x0A then CHR 0x20 else c) ?chunk = ''a  b ''"
    by simp
  from try_embed_chunk_newlines
    [of "example_embedding_driver ''text-search-ada-doc-001''" example_create ?chunk,
      THEN conjunct1, rule_format, OF 1] 3
  have a: "\<exists>kwargs. snd (try_embed_chunk example_create
                      (example_embedding_driver ''text-search-ada-doc-001'') ?chunk)
                  = [EmbeddingCreate kwargs]
         \<and> kwargs ''input'' = Some (PStr ''a  b '')"
    by simp
  from try_embed_chunk_newlines
    [of "example_embedding_driver ''text-embedding-ada-002''" example_create ?chunk,
      THEN conjunct2, rule_format, OF 2]
  have b: "\<exists>kwargs. snd (try_embed_chunk example_create
                      (example_embedding_driver ''text-embedding-ada-002'') ?chunk)
                  = [EmbeddingCreate kwargs]
         \<and> kwargs ''input'' = Some (PStr ?chunk)"
    by simp
  from 1 2 a b show ?thesis by blast
qed

text \<open>
  C7. The constructor yields the instance holding the given field values and writes them
  into the \<open>openai\<close> module: whatever the module held before, its five settings are
  afterwards the instance's \<open>api_type\<close>, \<open>api_version\<close>, \<open>api_base\<close>, \<open>api_key\<close> and
  \<open>organization\<close>.
\<close>

theorem init_sets_openai_module:
  "fst (openai_embedding_driver_init given openai) = given
   \<and> openai_api_type (snd (openai_embedding_driver_init given openai)) = api_type given
   \<and> openai_api_version (snd (openai_embedding_driver_init given openai)) = api_version given
   \<and> openai_api_base (snd (openai_embedding_driver_init given openai)) = api_base given
   \<and> openai_api_key (snd (openai_embedding_driver_init given openai)) = api_key given
   \<and> openai_organization (snd (openai_embedding_driver_init given openai)) = organization given"
  by (simp add: openai_embedding_driver_init_def attrs_post_init_def)

theorem init_sets_openai_module_witness:
  "openai_api_type example_openai = ''azure''
   \<and> openai_api_key example_openai = None
   \<and> fst (openai_embedding_driver_init
       (example_embedding_driver ''text-embedding-ada-002'') example_openai)
        = example_embedding_driver ''text-embedding-ada-002''
   \<and> openai_api_type (snd (openai_embedding_driver_init
       (example_embedding_driver ''text-embedding-ada-002'') example_openai)) = ''open_ai''
   \<and> openai_api_version (snd (openai_embedding_driver_init
       (example_embedding_driver ''text-embedding-ada-002'') example_openai)) = None
   \<and> openai_api_base (snd (openai_embedding_driver_init
       (example_embedding_driver ''text-embedding-ada-002'') example_openai))
        = ''https://api.openai.com/v1''
   \<and> openai_api_key (snd (openai_embedding_driver_init
       (example_embedding_driver ''text-embedding-ada-002'') example_openai)) = Some ''key''
   \<and> openai_organization (snd (openai_embedding_driver_init
       (example_embedding_driver ''text-embedding-ada-002'') example_openai)) = None"
proof -
  let ?given = "example_embedding_driver ''text-embedding-ada-002''"
  have f: "api_type ?given = ''open_ai''" "api_version ?given = None"
    "api_base ?given = ''https://api.openai.com/v1''" "api_key ?given = Some ''key''"
    "organization ?given = None"
    by (simp_all add: example_embedding_driver_def)
  have o: "openai_api_type example_openai = ''azure''" "openai_api_key example_openai = None"
    by (simp_all add: example_openai_def)
  from init_sets_openai_module [of ?given example_openai] f o show ?thesis
    by simp
qed

text \<open>
  C8. \<open>try_embed_chunk\<close> makes one external call, the request whose keyword arguments are
  the chunk (with its line feeds turned into spaces for a model named \<open>...001\<close>) and the
  model, key, organization, version, base and type of the driver. An error of the request
  is the error of \<open>try_embed_chunk\<close>; from a response it returns the \<open>embedding\<close> of the
  first entry of \<open>data\<close>.
\<close>

theorem try_embed_chunk_request:
  "let chunk' = (if endswith (model self) ''001''
                 then map (\<lambda>c. if c = CHR 0x0A then CHR 0x20 else c) chunk else chunk);
       kwargs = [''input'' \<mapsto> PStr chunk',
                 ''model'' \<mapsto> PStr (model self),
                 ''api_key'' \<mapsto> optional_str (api_key self),
                 ''organization'' \<mapsto> optional_str (organization self),
                 ''api_version'' \<mapsto> optional_str (api_version self),
                 ''api_base'' \<mapsto> PStr (api_base self),
                 ''api_type'' \<mapsto> PStr (api_type self)]
   in snd (try_embed_chunk create self chunk) = [EmbeddingCreate kwargs]
      \<and> (\<forall>e. create kwargs = Inl e \<longrightarrow> fst (try_embed_chunk create self chunk) = Inl e)
      \<and> (\<forall>response entries fields v.
            create kwargs = Inr (PDict response)
            \<and> response ''data'' = Some (PList (PDict fields # entries))
            \<and> fields ''embedding'' = Some v
            \<longrightarrow> fst (try_embed_chunk create self chunk) = Inr v)"
proof -
  let ?chunk' = "if endswith (model self) ''001''
                 then map (\<lambda>c. if c = CHR 0x0A then CHR 0x20 else c) chunk else chunk"
  let ?kwargs = "embedding_params self ?chunk' :: 'a pydict"
  have c: "(if endswith (model self) ''001'' then replace chunk [CHR 0x0A] '' '' else chunk)
      = ?chunk'"
    by (simp add: replace_single)
  have 1: "snd (try_embed_chunk create self chunk) = [EmbeddingCreate ?kwargs]"
    unfolding try_embed_chunk_trace c ..
  have r: "fst (try_embed_chunk create self chunk) =
     (case create ?kwargs of
        Inl e \<Rightarrow> Inl e
      | Inr response \<Rightarrow>
          (case getitem_key response ''data'' of
             Inl e \<Rightarrow> Inl e
           | Inr data \<Rightarrow>
               (case getitem_idx data 0 of
                  Inl e \<Rightarrow> Inl e
                | Inr entry \<Rightarrow> getitem_key entry ''embedding'')))"
    unfolding try_embed_chunk_result c ..
  have 2: "\<forall>e. create ?kwargs = Inl e \<longrightarrow> fst (try_embed_chunk create self chunk) = Inl e"
    by (simp add: r)
  have 3: "\<forall>response entries fields v.
            create ?kwargs = Inr (PDict response)
            \<and> response ''data'' = Some (PList (PDict fields # entries))
            \<and> fields ''embedding'' = Some v
            \<longrightarrow> fst (try_embed_chunk create self chunk) = Inr v"
    by (simp add: r)
  from 1 2 3 show ?thesis
    unfolding Let_def embedding_params_def by blast
qed

theorem try_embed_chunk_request_witness:
  "snd (try_embed_chunk example_create (example_embedding_driver ''text-embedding-ada-002'') ''hello'')
     = [EmbeddingCreate
          [''input'' \<mapsto> PStr ''hello'',
           ''model'' \<mapsto> PStr ''text-embedding-ada-002'',
           ''api_key'' \<mapsto> PStr ''key'',
           ''organization'' \<mapsto> PNone,
           ''api_version'' \<mapsto> PNone,
           ''api_base'' \<mapsto> PStr ''https://api.openai.com/v1'',
           ''api_type'' \<mapsto> PStr ''open_ai'']]
   \<and> fst (try_embed_chunk example_create (example_embedding_driver ''text-embedding-ada-002'') ''hello'')
     = Inr (PList [PFloat 0.5, PFloat (- 1)])"
proof -
  let ?self = "example_embedding_driver ''text-embedding-ada-002''"
  let ?kwargs = "[''input'' \<mapsto> PStr ''hello'',
           ''model'' \<mapsto> PStr ''text-embedding-ada-002'',
           ''api_key'' \<mapsto> PStr ''key'',
           ''organization'' \<mapsto> PNone,
           ''api_version'' \<mapsto> PNone,
           ''api_base'' \<mapsto> PStr ''https://api.openai.com/v1'',
           ''api_type'' \<mapsto> PStr ''open_ai''] :: real pydict"
  have n: "\<not> endswith (model ?self) ''001''"
    by (simp add: example_embedding_driver_def endswith_def)
  have k: "[''input'' \<mapsto> PStr ''hello'',
            ''model'' \<mapsto> PStr (model ?self),
            ''api_key'' \<mapsto> optional_str (api_key ?self),
            ''organization'' \<mapsto> optional_str (organization ?self),
            ''api_version'' \<mapsto> optional_str (api_version ?self),
            ''api_base'' \<mapsto> PStr (api_base ?self),
            ''api_type'' \<mapsto> PStr (api_type ?self)] = ?kwargs"
    by (simp add: example_embedding_driver_def)
  note th = try_embed_chunk_request [of ?self "''hello''" example_create,
      unfolded Let_def if_not_P [OF n] k]
  have a: "snd (try_embed_chunk example_create ?self ''hello'') = [EmbeddingCreate ?kwargs]"
    by (rule th [THEN conjunct1])
  have b: "fst (try_embed_chunk example_create ?self ''hello'')
      = Inr (PList [PFloat 0.5, PFloat (- 1)])"
    by (rule th [THEN conjunct2, THEN conjunct2, rule_format,
          where response = "[''data'' \<mapsto> PList [PDict [''embedding'' \<mapsto> PList [PFloat 0.5, PFloat (- 1)],
                                                         ''index'' \<mapsto> PInt 0]]]"
            and fields = "[''embedding'' \<mapsto> PList [PFloat 0.5, PFloat (- 1)], ''index'' \<mapsto> PInt 0]"
            and entries = "[]"])
       (simp add: example_create_def)
  from a b show ?thesis by (rule conjI)
qed

end
